theory Spec2Isabelle
  imports Main "HOL-Library.Char_ord" "HOL-Library.List_Lexorder" "HOL-Library.Product_Lexorder"
begin

section \<open>Strings as Python sees them\<close>

text \<open>
  Source text is a \<^typ>\<open>string\<close>: a list of characters with code points below 256.
  \<open>py_isspace\<close> is \<^verbatim>\<open>str.isspace\<close> on one such character; it is what
  \<^verbatim>\<open>str.strip()\<close> removes and what \<^verbatim>\<open>\s\<close> matches in a pattern over \<^verbatim>\<open>str\<close>.
\<close>

definition py_isspace :: "char \<Rightarrow> bool" where
  "py_isspace c =
     (let n = (of_char c :: nat)
      in (9 \<le> n \<and> n \<le> 13) \<or> (28 \<le> n \<and> n \<le> 32) \<or> n = 133 \<or> n = 160)"

definition strip :: "string \<Rightarrow> string" where
  "strip s = rev (dropWhile py_isspace (rev (dropWhile py_isspace s)))"

definition startswith :: "string \<Rightarrow> string \<Rightarrow> bool" where
  "startswith s p = (take (length p) s = p)"


text \<open>
  A word character, \<^verbatim>\<open>\w\<close> in a pattern over \<^verbatim>\<open>str\<close>: alphanumeric or the underscore.
\<close>

definition py_isword :: "char \<Rightarrow> bool" where
  "py_isword c =
     (let n = (of_char c :: nat)
      in (48 \<le> n \<and> n \<le> 57) \<or> (65 \<le> n \<and> n \<le> 90) \<or> n = 95 \<or> (97 \<le> n \<and> n \<le> 122)
         \<or> n = 170 \<or> n = 178 \<or> n = 179 \<or> n = 181 \<or> n = 185 \<or> n = 186
         \<or> (188 \<le> n \<and> n \<le> 190) \<or> (192 \<le> n \<and> n \<le> 214)
         \<or> (216 \<le> n \<and> n \<le> 246) \<or> 248 \<le> n)"

text \<open>\<^verbatim>\<open>str.lower()\<close> on one character.\<close>

definition py_lower :: "char \<Rightarrow> char" where
  "py_lower c =
     (let n = (of_char c :: nat)
      in if (65 \<le> n \<and> n \<le> 90) \<or> (192 \<le> n \<and> n \<le> 222 \<and> n \<noteq> 215)
         then char_of (n + 32) else c)"

text \<open>
  Slices take Python integers: a negative index counts from the end, and an index past
  either end is clipped to it.
\<close>

definition clip :: "int \<Rightarrow> nat \<Rightarrow> nat" where
  "clip i n = (if i < 0 then nat (max 0 (int n + i)) else min (nat i) n)"

definition py_slice :: "'a list \<Rightarrow> int \<Rightarrow> int \<Rightarrow> 'a list" where
  "py_slice s i j = (let a = clip i (length s); b = clip j (length s) in take (b - a) (drop a s))"

definition slice_to :: "'a list \<Rightarrow> int \<Rightarrow> 'a list" where
  "slice_to s j = take (clip j (length s)) s"

definition slice_from :: "'a list \<Rightarrow> int \<Rightarrow> 'a list" where
  "slice_from s i = drop (clip i (length s)) s"

text \<open>Position of the first and of the last \<open>c\<close> in a list, if any.\<close>

fun first_index :: "'a \<Rightarrow> 'a list \<Rightarrow> nat option" where
  "first_index c [] = None"
| "first_index c (d # s) =
     (if d = c then Some 0 else map_option Suc (first_index c s))"

fun last_index :: "'a \<Rightarrow> 'a list \<Rightarrow> nat option" where
  "last_index c [] = None"
| "last_index c (d # s) =
     (case last_index c s of
        Some i \<Rightarrow> Some (Suc i)
      | None \<Rightarrow> if d = c then Some 0 else None)"

text \<open>
  \<^verbatim>\<open>s.count(c, 0, j)\<close>, \<^verbatim>\<open>s.rfind(c, 0, j)\<close> and \<^verbatim>\<open>s.find(c, i)\<close> for a
  one-character \<open>c\<close>; the last two answer \<open>-1\<close> when there is none.
\<close>

definition py_count :: "string \<Rightarrow> char \<Rightarrow> int \<Rightarrow> int" where
  "py_count s c j = int (count_list (py_slice s 0 j) c)"

definition py_rfind :: "string \<Rightarrow> char \<Rightarrow> int \<Rightarrow> int" where
  "py_rfind s c j = (case last_index c (py_slice s 0 j) of None \<Rightarrow> - 1 | Some i \<Rightarrow> int i)"

definition py_find :: "string \<Rightarrow> char \<Rightarrow> int \<Rightarrow> int" where
  "py_find s c i =
     (case first_index c (slice_from s i) of
        None \<Rightarrow> - 1
      | Some k \<Rightarrow> int (clip i (length s) + k))"

section \<open>Regular expressions, as the two scripts use them\<close>

text \<open>
  The patterns of the scripts are built from literal text, single-character classes
  (alone, starred or plussed), the word boundary, optional and alternative non-capturing
  groups, and numbered capturing groups. \<open>GrpEnd n b\<close> is not written in a pattern: it
  marks, while matching, where group \<open>n\<close>, opened at offset \<open>b\<close>, closes.
\<close>

datatype rx =
    Lit string
  | Cls "char \<Rightarrow> bool"
  | Star "char \<Rightarrow> bool"
  | Plus "char \<Rightarrow> bool"
  | WordB
  | Opt "rx list"
  | Alt "rx list list"
  | Grp nat "rx list"
  | GrpEnd nat nat

fun rsize :: "rx \<Rightarrow> nat" where
  "rsize (Lit s) = Suc (length s)"
| "rsize (Cls P) = 1"
| "rsize (Star P) = 1"
| "rsize (Plus P) = 3"
| "rsize WordB = 1"
| "rsize (Opt b) = Suc (sum_list (map rsize b))"
| "rsize (Alt bs) = Suc (sum_list (map (\<lambda>b. Suc (sum_list (map rsize b))) bs))"
| "rsize (Grp n b) = Suc (Suc (sum_list (map rsize b)))"
| "rsize (GrpEnd n p) = 1"

definition psize :: "rx list \<Rightarrow> nat" where
  "psize prog = sum_list (map rsize prog)"

text \<open>
  What a match has captured so far: the spans of the groups closed, latest first, and
  \<^verbatim>\<open>lastindex\<close>, the number of the group closed last.
\<close>

record mstate =
  groups :: "(nat \<times> nat \<times> nat) list"
  lastindex :: "nat option"

definition at_boundary :: "char option \<Rightarrow> string \<Rightarrow> bool" where
  "at_boundary prev s =
     ((case prev of None \<Rightarrow> False | Some c \<Rightarrow> py_isword c)
        \<noteq> (case s of [] \<Rightarrow> False | c # _ \<Rightarrow> py_isword c))"

text \<open>
  The backtracking matcher: \<open>rmatch prog prev s p st\<close> matches the sequence \<open>prog\<close>
  against the text \<open>s\<close> that starts at offset \<open>p\<close> and follows the character \<open>prev\<close>.
  Repetition is greedy and alternatives are tried from the left, so the first match found
  is the one Python's \<^verbatim>\<open>re\<close> reports. The answer is the offset where the match ends
  and the groups captured.
\<close>

function rmatch :: "rx list \<Rightarrow> char option \<Rightarrow> string \<Rightarrow> nat \<Rightarrow> mstate \<Rightarrow> (nat \<times> mstate) option" where
  "rmatch [] prev s p st = Some (p, st)"
| "rmatch (Lit [] # k) prev s p st = rmatch k prev s p st"
| "rmatch (Lit (c # cs) # k) prev s p st =
     (case s of [] \<Rightarrow> None
      | d # s' \<Rightarrow> if d = c then rmatch (Lit cs # k) (Some d) s' (Suc p) st else None)"
| "rmatch (Cls P # k) prev s p st =
     (case s of [] \<Rightarrow> None
      | d # s' \<Rightarrow> if P d then rmatch k (Some d) s' (Suc p) st else None)"
| "rmatch (Star P # k) prev s p st =
     (case s of [] \<Rightarrow> rmatch k prev s p st
      | d # s' \<Rightarrow>
          if P d then
            (case rmatch (Star P # k) (Some d) s' (Suc p) st of
               Some r \<Rightarrow> Some r
             | None \<Rightarrow> rmatch k prev s p st)
          else rmatch k prev s p st)"
| "rmatch (Plus P # k) prev s p st = rmatch (Cls P # Star P # k) prev s p st"
| "rmatch (WordB # k) prev s p st =
     (if at_boundary prev s then rmatch k prev s p st else None)"
| "rmatch (Opt b # k) prev s p st =
     (case rmatch (b @ k) prev s p st of
        Some r \<Rightarrow> Some r
      | None \<Rightarrow> rmatch k prev s p st)"
| "rmatch (Alt [] # k) prev s p st = None"
| "rmatch (Alt (b # bs) # k) prev s p st =
     (case rmatch (b @ k) prev s p st of
        Some r \<Rightarrow> Some r
      | None \<Rightarrow> rmatch (Alt bs # k) prev s p st)"
| "rmatch (Grp n b # k) prev s p st = rmatch (b @ GrpEnd n p # k) prev s p st"
| "rmatch (GrpEnd n b # k) prev s p st =
     rmatch k prev s p (st\<lparr>groups := (n, b, p) # groups st, lastindex := Some n\<rparr>)"
  by pat_completeness auto
termination
  by (relation "measure (\<lambda>(prog, prev, s, p, st). psize prog + length s)")
     (auto simp: psize_def)

text \<open>A match object: where the whole match starts and ends, and its groups.\<close>

record rmatch_obj =
  m_start :: nat
  m_end :: nat
  m_state :: mstate

text \<open>
  \<^verbatim>\<open>pattern.finditer(content)\<close>: the matches from left to right, each search starting
  where the match before it ended. (No pattern of the scripts matches the empty string;
  after an empty match the search moves on by one character.)
\<close>

fun finditer :: "rx list \<Rightarrow> char option \<Rightarrow> string \<Rightarrow> nat \<Rightarrow> rmatch_obj list" where
  "finditer prog prev [] p =
     (case rmatch prog prev [] p \<lparr>groups = [], lastindex = None\<rparr> of
        None \<Rightarrow> []
      | Some (e, st) \<Rightarrow> [\<lparr>m_start = p, m_end = e, m_state = st\<rparr>])"
| "finditer prog prev (c # s) p =
     (case rmatch prog prev (c # s) p \<lparr>groups = [], lastindex = None\<rparr> of
        None \<Rightarrow> finditer prog (Some c) s (Suc p)
      | Some (e, st) \<Rightarrow>
          \<lparr>m_start = p, m_end = e, m_state = st\<rparr> #
            (let n = e - Suc p
             in finditer prog (Some ((c # s) ! n)) (drop n s) (Suc p + n)))"

text \<open>
  \<^verbatim>\<open>match.start(g)\<close> and \<^verbatim>\<open>match.end(g)\<close>: the span of the last capture of group
  \<open>g\<close>, or \<open>(-1, -1)\<close> when the group took no part in the match.
\<close>

definition m_span :: "rmatch_obj \<Rightarrow> nat \<Rightarrow> int \<times> int" where
  "m_span m g =
     (case map_of (groups (m_state m)) g of
        None \<Rightarrow> (- 1, - 1)
      | Some (b, e) \<Rightarrow> (int b, int e))"

section \<open>css_audit.py: the risk classifier\<close>

definition HIGH_RISK_PROPS :: "string list" where
  "HIGH_RISK_PROPS =
     [''display'', ''position'', ''float'', ''flex'', ''flex-direction'', ''flex-wrap'',
      ''flex-flow'', ''flex-grow'', ''flex-shrink'', ''flex-basis'', ''grid'', ''grid-template'',
      ''grid-template-columns'', ''grid-template-rows'', ''grid-column'', ''grid-row'',
      ''width'', ''height'', ''min-width'', ''min-height'', ''max-width'', ''max-height'',
      ''overflow'', ''overflow-x'', ''overflow-y'', ''margin'', ''padding'']"

definition MED_RISK_PROPS :: "string list" where
  "MED_RISK_PROPS =
     [''margin-top'', ''margin-right'', ''margin-bottom'', ''margin-left'',
      ''padding-top'', ''padding-right'', ''padding-bottom'', ''padding-left'',
      ''margin-inline'', ''margin-block'', ''padding-inline'', ''padding-block'']"

text \<open>\<^verbatim>\<open>decl.split(':')[0].strip()\<close>: the text before the first colon, stripped.\<close>

definition decl_prop :: "string \<Rightarrow> string" where
  "decl_prop decl = strip (takeWhile (\<lambda>c. c \<noteq> CHR '':'') decl)"

text \<open>
  \<^verbatim>\<open>prop in PROPS or any(prop.startswith(p+'-') for p in PROPS)\<close>, the test made
  against each of the two tables.
\<close>

definition risk_match :: "string list \<Rightarrow> string \<Rightarrow> bool" where
  "risk_match props prop =
     (prop \<in> set props \<or> list_ex (\<lambda>p. startswith prop (p @ ''-'')) props)"

text \<open>
  The declarations are a Python set; the list is the order in which the \<^verbatim>\<open>for\<close>
  loop happens to visit them.
\<close>

fun classify_risk :: "string list \<Rightarrow> string" where
  "classify_risk [] = ''LOW''"
| "classify_risk (decl # declarations) =
     (let prop = decl_prop decl
      in if risk_match HIGH_RISK_PROPS prop then ''HIGH''
         else if risk_match MED_RISK_PROPS prop then ''MEDIUM''
         else classify_risk declarations)"

text \<open>
  A dictionary is an association list in insertion order, with no key twice.
  \<^verbatim>\<open>d[k] = v\<close>: a key already there keeps its place.
\<close>

fun dict_set :: "'k \<Rightarrow> 'v \<Rightarrow> ('k \<times> 'v) list \<Rightarrow> ('k \<times> 'v) list" where
  "dict_set k v [] = [(k, v)]"
| "dict_set k v ((k', v') # kvs) =
     (if k' = k then (k, v) # kvs else (k', v') # dict_set k v kvs)"

section \<open>css_audit.py: classes and their declarations\<close>

text \<open>
  What \<^verbatim>\<open>cssutils\<close> hands over for a parsed stylesheet: a list of rules, a style rule
  with the texts of the selectors of its selector list and the items of its style block,
  each a property (name and value) or a comment.
\<close>

datatype style_item = Property string string | CSSComment string

datatype css_rule = STYLE_RULE "string list" "style_item list" | OTHER_RULE

definition name_char :: "char \<Rightarrow> bool" where
  "name_char c =
     (let n = (of_char c :: nat)
      in (97 \<le> n \<and> n \<le> 122) \<or> (65 \<le> n \<and> n \<le> 90) \<or> (48 \<le> n \<and> n \<le> 57)
         \<or> c = CHR ''_'' \<or> c = CHR ''-'')"

definition pseudo_char :: "char \<Rightarrow> bool" where
  "pseudo_char c =
     (let n = (of_char c :: nat)
      in (97 \<le> n \<and> n \<le> 122) \<or> (65 \<le> n \<and> n \<le> 90) \<or> c = CHR ''-'')"

text \<open>The pattern \<^verbatim>\<open>\.([a-zA-Z0-9_-]+)(?:::?[a-zA-Z-]+)?\<close>.\<close>

definition class_pattern :: "rx list" where
  "class_pattern =
     [Lit ''.'', Grp 1 [Plus name_char], Opt [Lit '':'', Opt [Lit '':''], Plus pseudo_char]]"

text \<open>
  \<^verbatim>\<open>re.findall\<close> for a pattern with one group: the text of group 1 of every match,
  empty when the group took no part.
\<close>

definition findall :: "rx list \<Rightarrow> string \<Rightarrow> string list" where
  "findall pattern s =
     map (\<lambda>m. case map_of (groups (m_state m)) 1 of
                 None \<Rightarrow> []
               | Some (b, e) \<Rightarrow> take (e - b) (drop b s))
         (finditer pattern None s 0)"

text \<open>
  The sets of declarations are objects that several class records can hold at once, so
  they live in a store, a list indexed by address; a class record holds the address of
  its set. Its other two sets are made anew for each record.
\<close>

type_synonym store = "string set list"

record class_data =
  declarations :: nat
  files :: "string set"
  count :: nat
  selectors :: "string set"

type_synonym class_map = "(string \<times> class_data) list"

text \<open>The loop that fills \<^verbatim>\<open>declarations\<close> from the style block of a rule.\<close>

fun rule_declarations :: "style_item list \<Rightarrow> string set" where
  "rule_declarations [] = {}"
| "rule_declarations (Property name val # items) =
     insert (name @ '': '' @ val) (rule_declarations items)"
| "rule_declarations (CSSComment c # items) = rule_declarations items"

text \<open>
  The loop \<^verbatim>\<open>for class_name in class_matches\<close>: \<open>d\<close> is the address of the set
  \<^verbatim>\<open>declarations\<close> just built for the selector. A new class gets that very object; a
  known class has its own set updated in place.
\<close>

fun add_classes ::
  "string \<Rightarrow> string \<Rightarrow> nat \<Rightarrow> string list \<Rightarrow> class_map \<Rightarrow> store \<Rightarrow> class_map \<times> store" where
  "add_classes source_file selector_text d [] cm h = (cm, h)"
| "add_classes source_file selector_text d (class_name # cs) cm h =
     (case map_of cm class_name of
        None \<Rightarrow>
          add_classes source_file selector_text d cs
            (cm @ [(class_name,
                    \<lparr>declarations = d, files = {source_file}, count = 0,
                     selectors = {selector_text}\<rparr>)])
            h
      | Some data \<Rightarrow>
          add_classes source_file selector_text d cs
            (dict_set class_name
               (data\<lparr>files := insert source_file (files data),
                     selectors := insert selector_text (selectors data)\<rparr>) cm)
            (h[declarations data := h ! declarations data \<union> h ! d]))"

text \<open>The loop over the selectors of one style rule.\<close>

fun add_selectors ::
  "string \<Rightarrow> style_item list \<Rightarrow> string list \<Rightarrow> class_map \<Rightarrow> store \<Rightarrow> class_map \<times> store" where
  "add_selectors source_file style [] cm h = (cm, h)"
| "add_selectors source_file style (selector_text # sels) cm h =
     (let class_matches = findall class_pattern selector_text
      in if class_matches = [] then add_selectors source_file style sels cm h
         else
           (let d = length h;
                (cm', h') = add_classes source_file selector_text d class_matches cm
                              (h @ [rule_declarations style])
            in add_selectors source_file style sels cm' h'))"

text \<open>The loop over the rules of the stylesheet.\<close>

fun add_rules :: "string \<Rightarrow> css_rule list \<Rightarrow> class_map \<Rightarrow> store \<Rightarrow> class_map \<times> store" where
  "add_rules source_file [] cm h = (cm, h)"
| "add_rules source_file (OTHER_RULE # rules) cm h = add_rules source_file rules cm h"
| "add_rules source_file (STYLE_RULE selectorList style # rules) cm h =
     (case add_selectors source_file style selectorList cm h of
        (cm', h') \<Rightarrow> add_rules source_file rules cm' h')"

text \<open>
  \<^verbatim>\<open>extract_classes_from_css\<close> for a file with the base name \<open>source_file\<close>; the
  stylesheet is \<open>None\<close> when parsing it raises, and the answer is then the empty map.
\<close>

definition extract_classes_from_css ::
  "string \<Rightarrow> css_rule list option \<Rightarrow> store \<Rightarrow> class_map \<times> store" where
  "extract_classes_from_css source_file stylesheet h =
     (case stylesheet of
        None \<Rightarrow> ([], h)
      | Some rules \<Rightarrow> add_rules source_file rules [] h)"

text \<open>
  The first loop of \<^verbatim>\<open>main\<close>, which merges the map of each stylesheet into
  \<^verbatim>\<open>class_map\<close>: a class seen before has its set updated in place, a new class takes
  the record, and with it the set object, of the file's map.
\<close>

fun merge_file :: "class_map \<Rightarrow> class_map \<Rightarrow> store \<Rightarrow> class_map \<times> store" where
  "merge_file [] cm h = (cm, h)"
| "merge_file ((class_name, data) # file_class_map) cm h =
     (case map_of cm class_name of
        Some old \<Rightarrow>
          merge_file file_class_map
            (dict_set class_name
               (old\<lparr>files := files old \<union> files data,
                    selectors := selectors old \<union> selectors data\<rparr>) cm)
            (h[declarations old := h ! declarations old \<union> h ! declarations data])
      | None \<Rightarrow> merge_file file_class_map (cm @ [(class_name, data)]) h)"

fun process_css ::
  "(string \<times> css_rule list option) list \<Rightarrow> class_map \<Rightarrow> store \<Rightarrow> class_map \<times> store" where
  "process_css [] cm h = (cm, h)"
| "process_css ((source_file, stylesheet) # css) cm h =
     (case extract_classes_from_css source_file stylesheet h of
        (file_class_map, h') \<Rightarrow>
          (case merge_file file_class_map cm h' of
             (cm', h'') \<Rightarrow> process_css css cm' h''))"

text \<open>The declaration set a class ends up with.\<close>

definition declarations_of :: "class_map \<times> store \<Rightarrow> string \<Rightarrow> string set option" where
  "declarations_of r class_name =
     map_option (\<lambda>data. snd r ! declarations data) (map_of (fst r) class_name)"

section \<open>css_audit.py: duplicate rule sets\<close>

text \<open>
  \<^verbatim>\<open>hash_declarations\<close>. The parameter \<open>md5\<close> stands for
  \<^verbatim>\<open>hashlib.md5(s.encode()).hexdigest()\<close>; strings are sorted by code point.
\<close>

definition hash_declarations :: "(string \<Rightarrow> string) \<Rightarrow> string list \<Rightarrow> string" where
  "hash_declarations md5 decls = md5 (concat (sort decls))"

text \<open>\<^verbatim>\<open>hash_to_classes[hash_value].append(class_name)\<close> on a \<^verbatim>\<open>defaultdict(list)\<close>.\<close>

fun dict_append :: "'k \<Rightarrow> 'v \<Rightarrow> ('k \<times> 'v list) list \<Rightarrow> ('k \<times> 'v list) list" where
  "dict_append k v [] = [(k, [v])]"
| "dict_append k v ((k', vs) # kvs) =
     (if k' = k then (k', vs @ [v]) # kvs else (k', vs) # dict_append k v kvs)"

text \<open>
  \<^verbatim>\<open>find_duplicate_rules\<close>. Of the data of a class the function reads the
  declarations only (a list by then), so the class map pairs each name with them.
\<close>

fun group_classes ::
  "(string \<Rightarrow> string) \<Rightarrow> (string \<times> string list) list \<Rightarrow> (string \<times> string list) list
     \<Rightarrow> (string \<times> string list) list" where
  "group_classes md5 [] hash_to_classes = hash_to_classes"
| "group_classes md5 ((class_name, decls) # cm) hash_to_classes =
     group_classes md5 cm (dict_append (hash_declarations md5 decls) class_name hash_to_classes)"

definition find_duplicate_rules ::
  "(string \<Rightarrow> string) \<Rightarrow> (string \<times> string list) list \<Rightarrow> (string \<times> string list) list" where
  "find_duplicate_rules md5 cm =
     filter (\<lambda>(hash_val, classes). length classes > 1) (group_classes md5 cm [])"

section \<open>rename_css_classes.py: reference extraction\<close>

definition quote2 :: "char \<Rightarrow> bool" where
  "quote2 c = (c = CHR 0x27 \<or> c = CHR 0x22)"

definition quote3 :: "char \<Rightarrow> bool" where
  "quote3 c = (c = CHR 0x27 \<or> c = CHR 0x22 \<or> c = CHR 0x60)"

definition not_quote2 :: "char \<Rightarrow> bool" where
  "not_quote2 c = (\<not> quote2 c)"

definition quote_space_paren :: "char \<Rightarrow> bool" where
  "quote_space_paren c = (quote2 c \<or> py_isspace c \<or> c = CHR '')'')"

text \<open>
  The part the first three, the sixth and the eighth pattern share: a quote of the class
  \<open>q\<close>, then \<^verbatim>\<open>(?:[^'"]*\s+)?\b(NAME)\b(?:\s+[^'"]*)?\<close> with the name as group \<open>g\<close>,
  then a closing quote of the class \<open>q\<close>.
\<close>

definition quoted_word :: "(char \<Rightarrow> bool) \<Rightarrow> nat \<Rightarrow> string \<Rightarrow> rx list" where
  "quoted_word q g class_name =
     [Cls q, Opt [Star not_quote2, Plus py_isspace], WordB, Grp g [Lit class_name], WordB,
      Opt [Plus py_isspace, Star not_quote2], Cls q]"

text \<open>
  The nine patterns with their match types, in the order of the source.
  \<^verbatim>\<open>re.escape(class_name)\<close> matches the name literally.
\<close>

definition patterns :: "string \<Rightarrow> (rx list \<times> string) list" where
  "patterns class_name =
     [([Grp 1 [Alt [[Lit ''class''], [Lit ''className'']]], Star py_isspace, Lit ''='',
        Star py_isspace] @ quoted_word quote2 2 class_name,
       ''JSX attribute''),
      ([Grp 1 [Alt [[Lit ''class''], [Lit ''className'']]], Star py_isspace, Lit ''='',
        Star py_isspace, Lit ''{'', Star py_isspace] @ quoted_word quote3 2 class_name,
       ''JSX expression''),
      ([Lit ''classList.'',
        Grp 1 [Alt [[Lit ''add''], [Lit ''remove''], [Lit ''toggle''], [Lit ''contains''],
                    [Lit ''replace'']]],
        Lit ''('', Star py_isspace] @ quoted_word quote2 2 class_name,
       ''classList method''),
      ([Lit ''querySelector'', Opt [Lit ''All''], Lit ''('', Star py_isspace, Cls quote2,
        Lit ''.'', Grp 1 [Lit class_name], Cls quote_space_paren],
       ''querySelector''),
      ([Lit ''getElementsByClassName('', Star py_isspace, Cls quote2, Grp 1 [Lit class_name],
        Cls quote2],
       ''getElementsByClassName''),
      ([Alt [[Lit ''className''], [Lit ''cssClass''], [Lit ''klass''], [Lit ''cls'']],
        Star py_isspace, Lit ''='', Star py_isspace] @ quoted_word quote2 1 class_name,
       ''class assignment''),
      ([Alt [[Lit ''matchesSelector''], [Lit ''matches''], [Lit ''closest'']], Lit ''('',
        Star py_isspace, Cls quote2, Lit ''.'', Grp 1 [Lit class_name], Cls quote_space_paren],
       ''matches method''),
      ([Lit ''.className'', Star py_isspace, Lit ''='', Star py_isspace]
         @ quoted_word quote2 1 class_name,
       ''className property''),
      ([Cls quote2, Lit ''.'', Grp 1 [Lit class_name], Cls quote2],
       ''class selector string'')]"

text \<open>
  What stops a call from returning a value: a \<^verbatim>\<open>sys.exit\<close> with a message or with a
  code, an exception nobody catches, or a prompt that waits for a key that never comes.
\<close>

datatype stop =
    SystemExit_msg string
  | SystemExit_code nat
  | TypeError
  | FileNotFoundError
  | NeverReturns

text \<open>A reference: \<^verbatim>\<open>(class_start, class_end, match_type, context)\<close>.\<close>

type_synonym reference = "int \<times> int \<times> string \<times> string"

text \<open>
  The body of the inner loop of \<^verbatim>\<open>find_class_references\<close> for the matches of one
  pattern. Comparing a \<^verbatim>\<open>lastindex\<close> of \<^verbatim>\<open>None\<close> with 2 raises \<^verbatim>\<open>TypeError\<close>.
\<close>

fun match_refs :: "string \<Rightarrow> string \<Rightarrow> rmatch_obj list \<Rightarrow> stop + reference list" where
  "match_refs content match_type [] = Inr []"
| "match_refs content match_type (m # ms) =
     (case lastindex (m_state m) of
        None \<Rightarrow> Inl TypeError
      | Some li \<Rightarrow>
          (let class_name_group = (if li \<ge> 2 then 2 else 1 :: nat)
           in if class_name_group \<le> li then
                (let (class_start, class_end) = m_span m class_name_group;
                     context = take (m_end m - m_start m) (drop (m_start m) content)
                 in case match_refs content match_type ms of
                      Inl e \<Rightarrow> Inl e
                    | Inr results \<Rightarrow> Inr ((class_start, class_end, match_type, context) # results))
              else match_refs content match_type ms))"

fun pattern_refs :: "string \<Rightarrow> (rx list \<times> string) list \<Rightarrow> stop + reference list" where
  "pattern_refs content [] = Inr []"
| "pattern_refs content ((pattern, match_type) # ps) =
     (case match_refs content match_type (finditer pattern None content 0) of
        Inl e \<Rightarrow> Inl e
      | Inr results \<Rightarrow>
          (case pattern_refs content ps of
             Inl e \<Rightarrow> Inl e
           | Inr rest \<Rightarrow> Inr (results @ rest)))"

definition find_class_references :: "string \<Rightarrow> string \<Rightarrow> stop + reference list" where
  "find_class_references content class_name = pattern_refs content (patterns class_name)"

section \<open>rename_css_classes.py: the renamer\<close>

text \<open>
  The command line, as \<^verbatim>\<open>argparse\<close> hands it over. \<open>map_json\<close> is the JSON object
  of the \<^verbatim>\<open>--map\<close> file when the option is given; a dictionary is an association list
  in insertion order, with no key twice.
\<close>

record args =
  roots :: "string list"
  map_json :: "(string \<times> string) list option"
  pairs :: "string list"
  dry_run :: bool
  all_yes :: bool
  no_backup :: bool

fun add_pairs :: "string list \<Rightarrow> (string \<times> string) list \<Rightarrow> stop + (string \<times> string) list" where
  "add_pairs [] mapping = Inr mapping"
| "add_pairs (pair # ps) mapping =
     (if CHR '':'' \<in> set pair then
        (let old = takeWhile (\<lambda>c. c \<noteq> CHR '':'') pair;
             new = tl (dropWhile (\<lambda>c. c \<noteq> CHR '':'') pair)
         in add_pairs ps (dict_set old new mapping))
      else Inl (SystemExit_msg (''Invalid mapping pair '' @ [CHR 0x27] @ pair @ [CHR 0x27]
                                  @ '' (should be OLD:NEW)'')))"

definition load_mapping :: "args \<Rightarrow> stop + (string \<times> string) list" where
  "load_mapping a =
     (case add_pairs (pairs a) (case map_json a of None \<Rightarrow> [] | Some m \<Rightarrow> m) of
        Inl e \<Rightarrow> Inl e
      | Inr mapping \<Rightarrow>
          if mapping = [] then
            Inl (SystemExit_msg ''No mappings supplied.  Use --map or OLD:NEW pairs.'')
          else Inr (filter (\<lambda>(k, v). \<not> startswith k ''/*'') mapping))"

text \<open>
  A file on disk either decodes as UTF-8 text or does not. What the run prints is kept
  as a list of events: a file read, the skip message for an undecodable file, the two
  lines that report an occurrence (path, line number, match type, the line with the name
  highlighted), the question of a prompt (old and new name), the key it echoes, a backup
  made, a file written.
\<close>

datatype fcontent = Text string | Undecodable

datatype event =
    Read string
  | Skipping string
  | Report string int string string
  | Question string string
  | Echo char
  | Backup string
  | Wrote string

text \<open>
  The world a run acts on: the files, the keys the operator has still to press, and the
  events so far.
\<close>

record world =
  disk :: "string \<Rightarrow> fcontent option"
  keys :: "char list"
  out :: "event list"

definition emit :: "event \<Rightarrow> world \<Rightarrow> world" where
  "emit e w = w\<lparr>out := out w @ [e]\<rparr>"

text \<open>
  The loop of \<^verbatim>\<open>prompt\<close>: keys are read, lowered, until one is y, n, s or a. When the
  operator's keys run out first the loop never ends.
\<close>

fun read_key :: "char list \<Rightarrow> (char \<times> char list) option" where
  "read_key [] = None"
| "read_key (k # ks) =
     (let key = py_lower k
      in if key \<in> set ''ynsa'' then Some (key, ks) else read_key ks)"

definition prompt :: "string \<Rightarrow> string \<Rightarrow> world \<Rightarrow> (stop + char) \<times> world" where
  "prompt old_class new_class w =
     (let w1 = emit (Question old_class new_class) w
      in case read_key (keys w1) of
           None \<Rightarrow> (Inl NeverReturns, w1\<lparr>keys := []\<rparr>)
         | Some (key, ks) \<Rightarrow> (Inr key, emit (Echo key) (w1\<lparr>keys := ks\<rparr>)))"

definition ANSI_YELLOW :: string where
  "ANSI_YELLOW = CHR 0x1B # ''[33m''"

definition ANSI_RESET :: string where
  "ANSI_RESET = CHR 0x1B # ''[0m''"

text \<open>The line number and the highlighted line that are printed for an occurrence.\<close>

definition report :: "string \<Rightarrow> string \<Rightarrow> reference \<Rightarrow> event" where
  "report path content r =
     (case r of (class_start, class_end, match_type, context) \<Rightarrow>
        (let line_num = py_count content CHR 0x0A class_start + 1;
             line_start = py_rfind content CHR 0x0A class_start + 1;
             line_end0 = py_find content CHR 0x0A class_start;
             line_end = (if line_end0 = - 1 then int (length content) else line_end0);
             line = py_slice content line_start line_end;
             highlight_pos = class_start - line_start;
             highlight_line =
               slice_to line highlight_pos @ ANSI_YELLOW
                 @ py_slice line highlight_pos (highlight_pos + (class_end - class_start))
                 @ ANSI_RESET
                 @ slice_from line (highlight_pos + (class_end - class_start))
         in Report path line_num match_type highlight_line))"

text \<open>
  The local variables of \<^verbatim>\<open>process_file\<close> that its loops change, and how a loop
  ends: it stops (\<open>Raised\<close>), it returns from \<^verbatim>\<open>process_file\<close> (\<open>Return\<close>), or it
  runs to its end (\<open>Next\<close>).
\<close>

record locals =
  global_yes :: bool
  all_changes :: "(int \<times> int \<times> string) list"
  changed :: bool

datatype flow = Raised stop | Return bool | Next locals

text \<open>The loop over the references of one mapping entry.\<close>

fun ref_loop ::
  "string \<Rightarrow> string \<Rightarrow> args \<Rightarrow> string \<Rightarrow> string \<Rightarrow> reference list \<Rightarrow> locals \<Rightarrow> world
     \<Rightarrow> flow \<times> world" where
  "ref_loop path content a old_class new_class [] l w = (Next l, w)"
| "ref_loop path content a old_class new_class
       ((class_start, class_end, match_type, context) # refs) l w =
     (let w1 = emit (report path content (class_start, class_end, match_type, context)) w;
          (answer, w2) =
            (if all_yes a \<or> global_yes l then (Inr CHR ''y'', w1)
             else if dry_run a then (Inr CHR ''n'', w1)
             else prompt old_class new_class w1)
      in case answer of
           Inl e \<Rightarrow> (Raised e, w2)
         | Inr choice0 \<Rightarrow>
             (let l1 = (if choice0 = CHR ''a'' then l\<lparr>global_yes := True\<rparr> else l);
                  choice = (if choice0 = CHR ''a'' then CHR ''y'' else choice0)
              in if choice = CHR ''s'' then (Return (changed l1), w2)
                 else if choice = CHR ''y'' then
                   ref_loop path content a old_class new_class refs
                     (l1\<lparr>all_changes := all_changes l1 @ [(class_start, class_end, new_class)],
                         changed := True\<rparr>) w2
                 else ref_loop path content a old_class new_class refs l1 w2))"

text \<open>The loop over \<^verbatim>\<open>mapping.items()\<close>.\<close>

fun mapping_loop ::
  "string \<Rightarrow> string \<Rightarrow> args \<Rightarrow> (string \<times> string) list \<Rightarrow> locals \<Rightarrow> world \<Rightarrow> flow \<times> world" where
  "mapping_loop path content a [] l w = (Next l, w)"
| "mapping_loop path content a ((old_class, new_class) # mapping) l w =
     (case find_class_references content old_class of
        Inl e \<Rightarrow> (Raised e, w)
      | Inr references \<Rightarrow>
          (case ref_loop path content a old_class new_class references l w of
             (Next l', w') \<Rightarrow> mapping_loop path content a mapping l' w'
           | (Raised e, w') \<Rightarrow> (Raised e, w')
           | (Return b, w') \<Rightarrow> (Return b, w')))"

text \<open>
  The changes are applied one after the other, each to the text the one before it left:
  \<^verbatim>\<open>content = content[:start] + replacement + content[end:]\<close>.
\<close>

fun apply_changes :: "string \<Rightarrow> (int \<times> int \<times> string) list \<Rightarrow> string" where
  "apply_changes content [] = content"
| "apply_changes content ((start, end, replacement) # cs) =
     apply_changes (slice_to content start @ replacement @ slice_from content end) cs"

text \<open>
  \<^verbatim>\<open>process_file\<close>. \<^verbatim>\<open>all_changes.sort(reverse=True)\<close> orders the triples from the
  largest down, triples and strings compared lexicographically.
\<close>

definition process_file ::
  "string \<Rightarrow> (string \<times> string) list \<Rightarrow> args \<Rightarrow> bool \<Rightarrow> world \<Rightarrow> (stop + bool) \<times> world" where
  "process_file path mapping a global_yes0 w =
     (case disk w path of
        None \<Rightarrow> (Inl FileNotFoundError, w)
      | Some Undecodable \<Rightarrow> (Inr False, emit (Skipping path) (emit (Read path) w))
      | Some (Text content) \<Rightarrow>
          (case mapping_loop path content a mapping
                  \<lparr>global_yes = global_yes0, all_changes = [], changed = False\<rparr>
                  (emit (Read path) w) of
             (Raised e, w') \<Rightarrow> (Inl e, w')
           | (Return b, w') \<Rightarrow> (Inr b, w')
           | (Next l, w') \<Rightarrow>
               if changed l \<and> \<not> dry_run a then
                 (let new_content = apply_changes content (rev (sort (all_changes l)));
                      w1 = (if \<not> no_backup a
                            then emit (Backup path)
                                   (w'\<lparr>disk := (disk w')(path @ ''.bak'' := disk w' path)\<rparr>)
                            else w');
                      w2 = w1\<lparr>disk := (disk w1)(path \<mapsto> Text new_content)\<rparr>
                  in (Inr (changed l), emit (Wrote path) w2))
               else (Inr (changed l), w')))"

text \<open>
  \<^verbatim>\<open>main\<close>, after the command line is parsed. \<open>rglob root g\<close> lists the paths under a
  directory that match a glob; a path is a file when the world has a content for it.
\<close>

definition JS_FILE_GLOB :: "string list" where
  "JS_FILE_GLOB = [''*.js'', ''*.jsx'', ''*.ts'', ''*.tsx'']"

fun files_loop ::
  "(string \<times> string) list \<Rightarrow> args \<Rightarrow> bool \<Rightarrow> string list \<Rightarrow> bool \<Rightarrow> world
     \<Rightarrow> (stop + bool) \<times> world" where
  "files_loop mapping a global_yes0 [] any_changes w = (Inr any_changes, w)"
| "files_loop mapping a global_yes0 (file_path # fs) any_changes w =
     (if disk w file_path \<noteq> None then
        (case process_file file_path mapping a global_yes0 w of
           (Inl e, w') \<Rightarrow> (Inl e, w')
         | (Inr b, w') \<Rightarrow> files_loop mapping a global_yes0 fs (b \<or> any_changes) w')
      else files_loop mapping a global_yes0 fs any_changes w)"

fun roots_loop ::
  "(string \<Rightarrow> string \<Rightarrow> string list) \<Rightarrow> (string \<times> string) list \<Rightarrow> args \<Rightarrow> bool \<Rightarrow> string list
     \<Rightarrow> bool \<Rightarrow> world \<Rightarrow> (stop + bool) \<times> world" where
  "roots_loop rglob mapping a global_yes0 [] any_changes w = (Inr any_changes, w)"
| "roots_loop rglob mapping a global_yes0 (root # rs) any_changes w =
     (let fs = (if disk w root \<noteq> None then [root]
                else concat (map (rglob root) JS_FILE_GLOB))
      in case files_loop mapping a global_yes0 fs any_changes w of
           (Inl e, w') \<Rightarrow> (Inl e, w')
         | (Inr b, w') \<Rightarrow> roots_loop rglob mapping a global_yes0 rs b w')"

definition main :: "(string \<Rightarrow> string \<Rightarrow> string list) \<Rightarrow> args \<Rightarrow> world \<Rightarrow> (stop + unit) \<times> world" where
  "main rglob a w =
     (case load_mapping a of
        Inl e \<Rightarrow> (Inl e, w)
      | Inr mapping \<Rightarrow>
          (case roots_loop rglob mapping a False (roots a) False w of
             (Inl e, w') \<Rightarrow> (Inl e, w')
           | (Inr any_changes, w') \<Rightarrow>
               if dry_run a \<and> any_changes then (Inl (SystemExit_code 1), w')
               else (Inr (), w')))"

text \<open>
  The exit status the interpreter gives the process: that of \<^verbatim>\<open>sys.exit\<close>, 1 for a
  message or an uncaught exception, 0 when \<^verbatim>\<open>main\<close> returns; none while a prompt
  waits.
\<close>

definition exit_status :: "stop + unit \<Rightarrow> nat option" where
  "exit_status r =
     (case r of
        Inr u \<Rightarrow> Some 0
      | Inl (SystemExit_code n) \<Rightarrow> Some n
      | Inl NeverReturns \<Rightarrow> None
      | Inl e \<Rightarrow> Some 1)"

text \<open>
  \<open>grows w w' ret\<close>: from \<open>w\<close> to \<open>w'\<close> the disk has not changed and the output has only
  grown, and if the new output echoes the key s then \<open>ret\<close> holds.
\<close>

definition grows :: "world \<Rightarrow> world \<Rightarrow> bool \<Rightarrow> bool" where
  "grows w w' ret =
     (disk w' = disk w \<and>
      (\<exists>evs. out w' = out w @ evs \<and> (Echo CHR ''s'' \<in> set evs \<longrightarrow> ret)))"

section \<open>Inputs for the runs evaluated below\<close>

text \<open>
  The double quote; a place with no directories; the mapping \<^verbatim>\<open>{"btn": "button"}\<close>
  for the given roots, every switch off; files of text with the keys the operator will
  press; a line of script that adds the class \<^verbatim>\<open>btn\<close>, and the same line as an
  occurrence in it is shown.
\<close>

definition dq :: string where
  "dq = [CHR 0x22]"

definition no_dirs :: "string \<Rightarrow> string \<Rightarrow> string list" where
  "no_dirs root g = []"

definition btn_args :: "string list \<Rightarrow> args" where
  "btn_args rs =
     \<lparr>roots = rs, map_json = Some [(''btn'', ''button'')], pairs = [],
      dry_run = False, all_yes = False, no_backup = False\<rparr>"

definition on_disk :: "(string \<times> string) list \<Rightarrow> string \<Rightarrow> world" where
  "on_disk fs ks = \<lparr>disk = map_of (map (\<lambda>(p, c). (p, Text c)) fs), keys = ks, out = []\<rparr>"

definition add_btn :: string where
  "add_btn = ''classList.add('' @ dq @ ''btn'' @ dq @ '')''"

definition add_btn_shown :: string where
  "add_btn_shown = ''classList.add('' @ dq @ ANSI_YELLOW @ ''btn'' @ ANSI_RESET @ dq @ '')''"

section \<open>Properties of the risk classifier\<close>

lemma startswith_iff: "startswith s p = (\<exists>r. s = p @ r)"
  unfolding startswith_def by (metis append_eq_conv_conj append_take_drop_id)

lemma startswith_trans:
  assumes "startswith s p" and "startswith p q"
  shows "startswith s q"
  using assms by (auto simp: startswith_iff)

lemma med_prop_shape:
  assumes "p \<in> set MED_RISK_PROPS"
  shows "startswith p ''margin-'' \<or> startswith p ''padding-''"
  using assms unfolding MED_RISK_PROPS_def startswith_def by auto

lemma margin_high: "startswith prop ''margin-'' \<Longrightarrow> risk_match HIGH_RISK_PROPS prop"
  unfolding risk_match_def HIGH_RISK_PROPS_def by simp

lemma padding_high: "startswith prop ''padding-'' \<Longrightarrow> risk_match HIGH_RISK_PROPS prop"
  unfolding risk_match_def HIGH_RISK_PROPS_def by simp

lemma med_implies_high:
  assumes "risk_match MED_RISK_PROPS prop"
  shows "risk_match HIGH_RISK_PROPS prop"
proof -
  from assms consider (mem) "prop \<in> set MED_RISK_PROPS"
    | (pre) p where "p \<in> set MED_RISK_PROPS" "startswith prop (p @ ''-'')"
    by (auto simp: risk_match_def list_ex_iff)
  then have "startswith prop ''margin-'' \<or> startswith prop ''padding-''"
  proof cases
    case mem
    then show ?thesis by (rule med_prop_shape)
  next
    case pre
    from pre(2) have "startswith prop p" by (auto simp: startswith_iff)
    with med_prop_shape [OF pre(1)] show ?thesis
      using startswith_trans by blast
  qed
  then show ?thesis using margin_high padding_high by blast
qed

text \<open>
  C10. Whatever the declarations and whatever the order in which they are visited, the
  classifier answers HIGH or LOW, never MEDIUM: a property that passes the MEDIUM test
  begins with \<^verbatim>\<open>margin-\<close> or \<^verbatim>\<open>padding-\<close>, so it has already passed the HIGH test,
  which is made first.
\<close>

theorem classify_risk_never_medium:
  "classify_risk decls = ''HIGH'' \<or> classify_risk decls = ''LOW''"
  by (induction decls) (auto simp: Let_def med_implies_high)

text \<open>
  C1. The classifier on the three declaration sets of the claim: \<^verbatim>\<open>{"color: red"}\<close> is
  LOW and \<^verbatim>\<open>{"display: flex", "color: red"}\<close> is HIGH in either order of iteration, but
  \<^verbatim>\<open>{"margin-top: 4px"}\<close> is HIGH, not MEDIUM.
\<close>

theorem classify_risk_examples:
  "classify_risk [''color: red''] = ''LOW'' \<and>
   classify_risk [''margin-top: 4px''] = ''HIGH'' \<and>
   classify_risk [''display: flex'', ''color: red''] = ''HIGH'' \<and>
   classify_risk [''color: red'', ''display: flex''] = ''HIGH''"
  by code_simp

section \<open>Properties of reference extraction\<close>

text \<open>
  C3. References to the class \<^verbatim>\<open>btn\<close>: a text that is only
  \<^verbatim>\<open>className="btn-primary"\<close> has none; a text that is only
  \<^verbatim>\<open>className="btn primary"\<close> has two, not one: the same span, offsets 11 to 14, is
  reported once as a JSX attribute and once as a class assignment.
\<close>

theorem btn_references:
  "find_class_references (''className='' @ dq @ ''btn-primary'' @ dq) ''btn'' = Inr [] \<and>
   find_class_references (''className='' @ dq @ ''btn primary'' @ dq) ''btn'' =
     Inr [(11, 14, ''JSX attribute'', ''className='' @ dq @ ''btn primary'' @ dq),
          (11, 14, ''class assignment'', ''className='' @ dq @ ''btn primary'' @ dq)]"
  by code_simp

section \<open>Properties of the renamer\<close>

text \<open>
  C2. Two pattern categories that match the same text give two references with the same
  span, and both become substitutions: in \<^verbatim>\<open>className="btn"\<close> the name is found as a
  JSX attribute and as a class assignment, and with every occurrence accepted both
  changes are spliced in, the second one into the text the first one has already
  changed, so that renaming \<^verbatim>\<open>btn\<close> to \<^verbatim>\<open>button\<close> writes
  \<^verbatim>\<open>className="buttonton"\<close>.
\<close>

theorem same_span_spliced_twice:
  "find_class_references (''className='' @ dq @ ''btn'' @ dq) ''btn'' =
     Inr [(11, 14, ''JSX attribute'', ''className='' @ dq @ ''btn'' @ dq),
          (11, 14, ''class assignment'', ''className='' @ dq @ ''btn'' @ dq)] \<and>
   disk (snd (process_file ''a.js'' [(''btn'', ''button'')]
                ((btn_args [''a.js''])\<lparr>all_yes := True\<rparr>) False
                (on_disk [(''a.js'', ''className='' @ dq @ ''btn'' @ dq)] []))) ''a.js''
     = Some (Text (''className='' @ dq @ ''buttonton'' @ dq))"
  by code_simp

text \<open>
  C6. A dry run over a file with one occurrence, which a real run that accepts it
  rewrites: the dry run asks nothing and writes nothing, and its exit status is 0, not
  nonzero.
\<close>

theorem dry_run_exits_zero:
  "exit_status (fst (main no_dirs ((btn_args [''a.js''])\<lparr>dry_run := True\<rparr>)
                       (on_disk [(''a.js'', add_btn)] []))) = Some 0 \<and>
   out (snd (main no_dirs ((btn_args [''a.js''])\<lparr>dry_run := True\<rparr>)
                  (on_disk [(''a.js'', add_btn)] [])))
     = [Read ''a.js'', Report ''a.js'' 1 ''classList method'' add_btn_shown] \<and>
   disk (snd (main no_dirs ((btn_args [''a.js''])\<lparr>dry_run := True\<rparr>)
                   (on_disk [(''a.js'', add_btn)] []))) ''a.js''
     = Some (Text add_btn) \<and>
   disk (snd (main no_dirs ((btn_args [''a.js''])\<lparr>all_yes := True\<rparr>)
                   (on_disk [(''a.js'', add_btn)] []))) ''a.js''
     = Some (Text (''classList.add('' @ dq @ ''button'' @ dq @ '')''))"
  by code_simp

text \<open>
  When no mapping is supplied at all, no entry from \<^verbatim>\<open>--map\<close> and no
  \<^verbatim>\<open>OLD:NEW\<close> pair, the run ends with the message of \<^verbatim>\<open>load_mapping\<close> and exit
  status 1, and the world is as it was: no file has been read or written.
\<close>

lemma no_mapping_is_fatal:
  assumes "pairs a = []" and "map_json a = None \<or> map_json a = Some []"
  shows "main rglob a w =
           (Inl (SystemExit_msg ''No mappings supplied.  Use --map or OLD:NEW pairs.''), w) \<and>
         exit_status (fst (main rglob a w)) = Some 1"
  using assms by (auto simp: main_def load_mapping_def exit_status_def)

lemma no_mapping_is_fatal_example:
  "main no_dirs ((btn_args [''a.js''])\<lparr>map_json := None\<rparr>) (on_disk [(''a.js'', add_btn)] [])
     = (Inl (SystemExit_msg ''No mappings supplied.  Use --map or OLD:NEW pairs.''),
        on_disk [(''a.js'', add_btn)] []) \<and>
   exit_status (fst (main no_dirs ((btn_args [''a.js''])\<lparr>map_json := None\<rparr>)
                       (on_disk [(''a.js'', add_btn)] []))) = Some 1"
  using no_mapping_is_fatal [of "(btn_args [''a.js''])\<lparr>map_json := None\<rparr>" no_dirs
                               "on_disk [(''a.js'', add_btn)] []"]
  by (simp add: btn_args_def exit_status_def)

text \<open>
  C7. A mapping whose only key is a comment is empty once the comment keys are
  discarded, yet the run is not fatal: \<^verbatim>\<open>load_mapping\<close> tests for an empty mapping
  before it discards them, so the run goes on with no entry at all, reads the file and
  ends with exit status 0.
\<close>

theorem comment_only_mapping_not_fatal:
  "load_mapping ((btn_args [''a.js''])\<lparr>map_json := Some [(''/* buttons */'', ''x'')]\<rparr>)
     = Inr [] \<and>
   exit_status (fst (main no_dirs
                       ((btn_args [''a.js''])\<lparr>map_json := Some [(''/* buttons */'', ''x'')]\<rparr>)
                       (on_disk [(''a.js'', add_btn)] []))) = Some 0 \<and>
   out (snd (main no_dirs
               ((btn_args [''a.js''])\<lparr>map_json := Some [(''/* buttons */'', ''x'')]\<rparr>)
               (on_disk [(''a.js'', add_btn)] []))) = [Read ''a.js''] \<and>
   disk (snd (main no_dirs
                ((btn_args [''a.js''])\<lparr>map_json := Some [(''/* buttons */'', ''x'')]\<rparr>)
                (on_disk [(''a.js'', add_btn)] []))) ''a.js'' = Some (Text add_btn)"
  by code_simp

text \<open>
  C8. Two files with one occurrence each, the operator pressing a and then n: the answer
  a accepts the occurrence of the first file, which is written, but the second file
  prompts again, and its occurrence, answered n, is left as it was.
\<close>

theorem accept_all_ends_with_the_file:
  "out (snd (main no_dirs (btn_args [''a.js'', ''b.js''])
               (on_disk [(''a.js'', add_btn), (''b.js'', add_btn)] ''an'')))
     = [Read ''a.js'', Report ''a.js'' 1 ''classList method'' add_btn_shown,
        Question ''btn'' ''button'', Echo CHR ''a'', Backup ''a.js'', Wrote ''a.js'',
        Read ''b.js'', Report ''b.js'' 1 ''classList method'' add_btn_shown,
        Question ''btn'' ''button'', Echo CHR ''n''] \<and>
   disk (snd (main no_dirs (btn_args [''a.js'', ''b.js''])
                (on_disk [(''a.js'', add_btn), (''b.js'', add_btn)] ''an''))) ''b.js''
     = Some (Text add_btn)"
  by code_simp

subsection \<open>Skipping a file\<close>

lemma grows_refl: "grows w w ret"
  by (simp add: grows_def)

lemma grows_trans:
  assumes "grows w w1 False" and "grows w1 w2 ret"
  shows "grows w w2 ret"
  using assms unfolding grows_def by auto

lemma grows_emit: "e \<noteq> Echo CHR ''s'' \<Longrightarrow> grows w (emit e w) ret"
  by (simp add: grows_def emit_def)

lemma prompt_grows:
  assumes "prompt old_class new_class w = (r, w')"
  shows "grows w w' (r = Inr CHR ''s'')"
  using assms
  by (auto simp: prompt_def grows_def emit_def Let_def split: option.splits)

lemma ref_loop_grows:
  "ref_loop path content a old_class new_class refs l w = (fl, w')
     \<Longrightarrow> grows w w' (\<exists>b. fl = Return b)"
proof (induction refs arbitrary: l w)
  case Nil
  then show ?case by (simp add: grows_refl)
next
  case (Cons r refs)
  obtain class_start class_end match_type ctx where
    r: "r = (class_start, class_end, match_type, ctx)"
    by (cases r)
  let ?w1 = "emit (report path content r) w"
  have g1: "grows w ?w1 False"
    by (rule grows_emit) (simp add: report_def Let_def split: prod.splits)
  obtain answer w2 where step:
    "(if all_yes a \<or> global_yes l then (Inr CHR ''y'', ?w1)
      else if dry_run a then (Inr CHR ''n'', ?w1)
      else prompt old_class new_class ?w1) = (answer, w2)"
    by (meson surj_pair)
  have g2: "grows ?w1 w2 (answer = Inr CHR ''s'')"
    using step by (auto simp: grows_refl prompt_grows split: if_splits)
  show ?case
  proof (cases answer)
    case (Inl e)
    with Cons.prems step r have "fl = Raised e" "w' = w2"
      by (auto simp: Let_def)
    with g1 g2 Inl show ?thesis
      unfolding grows_def by auto
  next
    case (Inr choice0)
    show ?thesis
    proof (cases "choice0 = CHR ''s''")
      case True
      with Cons.prems step Inr r have "\<exists>b. fl = Return b" "w' = w2"
        by (auto simp: Let_def)
      with g1 g2 show ?thesis
        unfolding grows_def by auto
    next
      case False
      with g2 Inr have g2': "grows ?w1 w2 False"
        unfolding grows_def by auto
      from Cons.prems step Inr False r obtain l' where
        "ref_loop path content a old_class new_class refs l' w2 = (fl, w')"
        by (auto simp: Let_def split: if_splits)
      from Cons.IH [OF this] have "grows w2 w' (\<exists>b. fl = Return b)" .
      with g1 g2' show ?thesis
        using grows_trans by blast
    qed
  qed
qed

lemma mapping_loop_grows:
  "mapping_loop path content a mapping l w = (fl, w')
     \<Longrightarrow> grows w w' (\<exists>b. fl = Return b)"
proof (induction mapping arbitrary: l w)
  case Nil
  then show ?case by (simp add: grows_refl)
next
  case (Cons kv mapping)
  obtain old_class new_class where kv: "kv = (old_class, new_class)"
    by (cases kv)
  show ?case
  proof (cases "find_class_references content old_class")
    case (Inl e)
    with Cons.prems kv show ?thesis by (simp add: grows_refl)
  next
    case (Inr references)
    obtain fl1 w1 where rl:
      "ref_loop path content a old_class new_class references l w = (fl1, w1)"
      by (meson surj_pair)
    from ref_loop_grows [OF rl] have g1: "grows w w1 (\<exists>b. fl1 = Return b)" .
    show ?thesis
    proof (cases fl1)
      case (Next l')
      with Cons.prems kv Inr rl
      have "mapping_loop path content a mapping l' w1 = (fl, w')" by simp
      from Cons.IH [OF this] have "grows w1 w' (\<exists>b. fl = Return b)" .
      moreover from g1 Next have "grows w w1 False" by simp
      ultimately show ?thesis using grows_trans by blast
    next
      case (Raised e)
      with Cons.prems kv Inr rl have "fl = fl1" "w' = w1" by auto
      with g1 show ?thesis by simp
    next
      case (Return b)
      with Cons.prems kv Inr rl have "fl = fl1" "w' = w1" by auto
      with g1 show ?thesis by simp
    qed
  qed
qed

text \<open>
  The step inside one call: if the new output of \<^verbatim>\<open>process_file\<close> echoes the key s,
  the disk is as it was and the call returns a value.
\<close>

lemma skip_returns_disk_same:
  assumes "Echo CHR ''s''
             \<in> set (drop (length (out w)) (out (snd (process_file path mapping a gy w))))"
  shows "disk (snd (process_file path mapping a gy w)) = disk w \<and>
         (\<exists>b. fst (process_file path mapping a gy w) = Inr b)"
proof (cases "disk w path")
  case None
  with assms show ?thesis by (simp add: process_file_def)
next
  case (Some fc)
  show ?thesis
  proof (cases fc)
    case Undecodable
    with Some assms show ?thesis by (simp add: process_file_def emit_def)
  next
    case (Text content)
    let ?w0 = "emit (Read path) w"
    obtain fl w' where ml:
      "mapping_loop path content a mapping
         \<lparr>global_yes = gy, all_changes = [], changed = False\<rparr> ?w0 = (fl, w')"
      by (meson surj_pair)
    from mapping_loop_grows [OF ml] have g: "grows ?w0 w' (\<exists>b. fl = Return b)" .
    then obtain evs where evs: "out w' = out w @ Read path # evs"
      and ret: "Echo CHR ''s'' \<in> set evs \<Longrightarrow> \<exists>b. fl = Return b"
      and dk: "disk w' = disk w"
      unfolding grows_def emit_def by auto
    show ?thesis
    proof (cases fl)
      case (Return b)
      with Some Text ml dk show ?thesis by (simp add: process_file_def)
    next
      case (Raised e)
      with Some Text ml have res: "process_file path mapping a gy w = (Inl e, w')"
        by (simp add: process_file_def)
      with assms evs have "Echo CHR ''s'' \<in> set evs" by simp
      with ret Raised show ?thesis by auto
    next
      case (Next l)
      have "Echo CHR ''s'' \<in> set evs"
      proof -
        from Some Text ml Next
        have "\<exists>rest. out (snd (process_file path mapping a gy w)) = out w' @ rest
                \<and> Echo CHR ''s'' \<notin> set rest"
          by (auto simp: process_file_def Let_def emit_def)
        then obtain rest where
          m: "out (snd (process_file path mapping a gy w)) = out w' @ rest"
          and nm: "Echo CHR ''s'' \<notin> set rest" by blast
        from assms m evs have "Echo CHR ''s'' \<in> set (Read path # evs @ rest)" by simp
        with nm show ?thesis by auto
      qed
      with ret Next show ?thesis by auto
    qed
  qed
qed

text \<open>
  C9. If, while a file is processed, the operator answers a prompt with s (the prompt
  echoes the key), whatever was accepted before, then the disk is left exactly as it was,
  the file and every other path, \<^verbatim>\<open>process_file\<close> returns its flag \<open>b\<close>, and the loop
  of \<^verbatim>\<open>main\<close> over the files moves on: it goes through the files that remain, from
  the world this call has left.
\<close>

theorem skip_file_leaves_disk:
  assumes "Echo CHR ''s''
             \<in> set (drop (length (out w)) (out (snd (process_file path mapping a gy w))))"
  shows "disk (snd (process_file path mapping a gy w)) = disk w \<and>
         (\<exists>b. fst (process_file path mapping a gy w) = Inr b \<and>
              files_loop mapping a gy (path # fs) any_changes w
                = files_loop mapping a gy fs (b \<or> any_changes)
                    (snd (process_file path mapping a gy w)))"
proof -
  from skip_returns_disk_same [OF assms]
  obtain b where dk: "disk (snd (process_file path mapping a gy w)) = disk w"
    and b: "fst (process_file path mapping a gy w) = Inr b"
    by blast
  have is_file: "disk w path \<noteq> None"
  proof
    assume "disk w path = None"
    then have "process_file path mapping a gy w = (Inl FileNotFoundError, w)"
      by (simp add: process_file_def)
    with assms show False by simp
  qed
  from b obtain w' where pf: "process_file path mapping a gy w = (Inr b, w')"
    by (cases "process_file path mapping a gy w") auto
  with is_file
  have "files_loop mapping a gy (path # fs) any_changes w
          = files_loop mapping a gy fs (b \<or> any_changes) w'"
    by simp
  with pf
  have "files_loop mapping a gy (path # fs) any_changes w
          = files_loop mapping a gy fs (b \<or> any_changes)
              (snd (process_file path mapping a gy w))"
    by simp
  with dk b show ?thesis by blast
qed

text \<open>
  Three occurrences in the first file; the first is accepted, the second answered s. The
  first file stays as it was, and the run goes on to the second file, whose occurrence,
  answered y, is rewritten.
\<close>

theorem skip_file_leaves_disk_witness:
  "Echo CHR ''s''
     \<in> set (drop (length (out (on_disk [(''a.js'', add_btn @ add_btn @ add_btn),
                                         (''b.js'', add_btn)] ''ysy'')))
          (out (snd (process_file ''a.js'' [(''btn'', ''button'')]
                       (btn_args [''a.js'', ''b.js'']) False
                       (on_disk [(''a.js'', add_btn @ add_btn @ add_btn),
                                 (''b.js'', add_btn)] ''ysy''))))) \<and>
   fst (process_file ''a.js'' [(''btn'', ''button'')] (btn_args [''a.js'', ''b.js'']) False
          (on_disk [(''a.js'', add_btn @ add_btn @ add_btn), (''b.js'', add_btn)] ''ysy''))
     = Inr True \<and>
   disk (snd (process_file ''a.js'' [(''btn'', ''button'')] (btn_args [''a.js'', ''b.js'']) False
                (on_disk [(''a.js'', add_btn @ add_btn @ add_btn), (''b.js'', add_btn)] ''ysy'')))
     = disk (on_disk [(''a.js'', add_btn @ add_btn @ add_btn), (''b.js'', add_btn)] ''ysy'') \<and>
   files_loop [(''btn'', ''button'')] (btn_args [''a.js'', ''b.js'']) False [''a.js'', ''b.js''] False
       (on_disk [(''a.js'', add_btn @ add_btn @ add_btn), (''b.js'', add_btn)] ''ysy'')
     = files_loop [(''btn'', ''button'')] (btn_args [''a.js'', ''b.js'']) False [''b.js''] True
         (snd (process_file ''a.js'' [(''btn'', ''button'')] (btn_args [''a.js'', ''b.js'']) False
                 (on_disk [(''a.js'', add_btn @ add_btn @ add_btn),
                           (''b.js'', add_btn)] ''ysy''))) \<and>
   disk (snd (main no_dirs (btn_args [''a.js'', ''b.js''])
                (on_disk [(''a.js'', add_btn @ add_btn @ add_btn), (''b.js'', add_btn)] ''ysy'')))
        ''a.js''
     = Some (Text (add_btn @ add_btn @ add_btn)) \<and>
   disk (snd (main no_dirs (btn_args [''a.js'', ''b.js''])
                (on_disk [(''a.js'', add_btn @ add_btn @ add_btn), (''b.js'', add_btn)] ''ysy'')))
        ''b.js''
     = Some (Text (''classList.add('' @ dq @ ''button'' @ dq @ '')''))"
proof -
  let ?w = "on_disk [(''a.js'', add_btn @ add_btn @ add_btn), (''b.js'', add_btn)] ''ysy''"
  let ?a = "btn_args [''a.js'', ''b.js'']"
  let ?m = "[(''btn'', ''button'')]"
  have h: "Echo CHR ''s''
     \<in> set (drop (length (out ?w)) (out (snd (process_file ''a.js'' ?m ?a False ?w))))"
    by code_simp
  have c: "fst (process_file ''a.js'' ?m ?a False ?w) = Inr True"
    by code_simp
  have ra: "disk (snd (main no_dirs ?a ?w)) ''a.js'' = Some (Text (add_btn @ add_btn @ add_btn))"
    by code_simp
  have rb: "disk (snd (main no_dirs ?a ?w)) ''b.js''
              = Some (Text (''classList.add('' @ dq @ ''button'' @ dq @ '')''))"
    by code_simp
  from skip_file_leaves_disk [OF h, of "[''b.js'']" False]
  obtain b where dk: "disk (snd (process_file ''a.js'' ?m ?a False ?w)) = disk ?w"
    and b: "fst (process_file ''a.js'' ?m ?a False ?w) = Inr b"
    and fl: "files_loop ?m ?a False [''a.js'', ''b.js''] False ?w
               = files_loop ?m ?a False [''b.js''] (b \<or> False)
                   (snd (process_file ''a.js'' ?m ?a False ?w))"
    by blast
  from b c have "b = True" by simp
  with fl have "files_loop ?m ?a False [''a.js'', ''b.js''] False ?w
               = files_loop ?m ?a False [''b.js''] True
                   (snd (process_file ''a.js'' ?m ?a False ?w))"
    by simp
  with h c dk ra rb show ?thesis by blast
qed

section \<open>Properties of the class map and of the duplicate detector\<close>

text \<open>
  C4. A stylesheet with the rules \<^verbatim>\<open>.btn.primary { color: red }\<close> and
  \<^verbatim>\<open>.btn { margin: 0 }\<close>: the class \<^verbatim>\<open>primary\<close> ends up with both declarations,
  although the selector of the second rule does not mention it. The two classes were
  given one set object by the first rule, and the second rule updates it in place.
\<close>

theorem declarations_leak_to_other_class:
  "declarations_of
     (process_css
        [(''s.css'',
          Some [STYLE_RULE [''.btn.primary''] [Property ''color'' ''red''],
                STYLE_RULE [''.btn''] [Property ''margin'' ''0'']])] [] [])
     ''primary''
   = Some {''color: red'', ''margin: 0''}"
  by code_simp

text \<open>
  C5. Two classes whose declaration sets differ, \<^verbatim>\<open>animation-name: slide\<close> with
  \<^verbatim>\<open>margin-left: 0\<close> and \<^verbatim>\<open>animation-name: slidemargin-\<close> with \<^verbatim>\<open>left: 0\<close>, are put
  in one duplicate group, whatever the hash function: sorted and joined with nothing in
  between, both sets give the same text.
\<close>

theorem different_sets_one_group:
  "find_duplicate_rules md5
     [(''x'', [''margin-left: 0'', ''animation-name: slide'']),
      (''y'', [''left: 0'', ''animation-name: slidemargin-''])]
   = [(md5 ''animation-name: slidemargin-left: 0'', [''x'', ''y''])]"
  by (simp add: find_duplicate_rules_def hash_declarations_def)

end
